theory Spec2Isabelle
  imports Main "HOL-Library.Multiset"
begin

section \<open>The OWDL workflow driver (owdl\_driver.py)\<close>

subsection \<open>Entities\<close>

text \<open>
  The status enumerations. Python compares them with \<open>is\<close> and \<open>in\<close>; the members
  are singletons, so both are equality of constructors here. The three enumerations share
  member names in the source and carry a prefix here: \<open>C_\<close> for
  \<open>ContainerInstanceStatus\<close>, \<open>S_\<close> for the state \<open>Status\<close> and \<open>W_\<close> for the
  workflow \<open>Status\<close>.
\<close>

datatype ContainerInstanceStatus = C_UNKNOWN | C_STARTED | C_COMPLETED | C_FAILED

datatype StateStatus = S_STARTED | S_COMPLETED | S_FAILED | S_CANCELLED

datatype WorkflowStatus = W_CREATED | W_STARTED | W_COMPLETED | W_FAILED | W_CANCELLED

text \<open>
  The entity classes are imported by the driver; it reads the fields below. Field names
  that occur in more than one class carry the class as a suffix. The fields \<open>next_\<close> and
  \<open>end\<close> of a state are \<open>state_next\<close> and \<open>state_end\<close>.
\<close>

record ContainerInstance =
  instance_id :: string
  status_ci :: ContainerInstanceStatus

record OWDLState =
  container_definition :: string
  package_name :: string
  cmd_args_list :: "string list"
  timeout :: "int option"
  state_next :: "string option"
  state_end :: bool
  retry_count :: int

record OWDLWorkflow =
  starts_at :: string
  states :: "string \<rightharpoonup> OWDLState"

record OWDLStateInstance =
  owdl_state :: OWDLState
  containers :: "ContainerInstance list"
  status_si :: StateStatus
  retry_num :: int

record OWDLWorkflowInstance =
  instance_id_wi :: string
  owdl_workflow_wi :: OWDLWorkflow
  state_instances :: "OWDLStateInstance list"
  status_wi :: WorkflowStatus

subsection \<open>Status aggregation\<close>

text \<open>
  \<open>_get_state_status\<close>: the \<open>for\<close> loop over the containers, with the local
  \<open>has_started\<close> as accumulator. A FAILED container returns from inside the loop.
\<close>

fun get_state_status_loop :: "bool \<Rightarrow> ContainerInstance list \<Rightarrow> StateStatus" where
  "get_state_status_loop has_started [] = (if has_started then S_STARTED else S_COMPLETED)"
| "get_state_status_loop has_started (container # rest) =
     (if status_ci container \<in> set [C_STARTED, C_UNKNOWN] then get_state_status_loop True rest
      else if status_ci container = C_FAILED then S_FAILED
      else get_state_status_loop has_started rest)"

definition get_state_status :: "ContainerInstance list \<Rightarrow> StateStatus" where
  "get_state_status cs = get_state_status_loop False cs"

subsection \<open>Errors and the backend\<close>

text \<open>
  Every failure the driver raises itself is an \<open>OWDLRuntimeError\<close> with a message.
  \<open>KeyError\<close> is Python's error for a key missing from the \<open>states\<close> dictionary, and
  \<open>BackendError\<close> stands for whatever the \<open>OneDockerService\<close> raises; the driver
  catches nothing, so both propagate.
\<close>

datatype error = OWDLRuntimeError string | KeyError string | BackendError string

text \<open>The messages of the driver's own errors, under the names the design gives them.\<close>

definition InvalidArguments :: error where
  "InvalidArguments = OWDLRuntimeError ''Incorrect number of args provided''"

definition InvalidTransition_start :: error where
  "InvalidTransition_start = OWDLRuntimeError ''Invalid status while starting the Workflow''"

definition InvalidTransition_next :: error where
  "InvalidTransition_next =
     OWDLRuntimeError ''Invalid status while attempting to run next state of Workflow''"

definition InvalidTransition_cancel_workflow_status :: error where
  "InvalidTransition_cancel_workflow_status =
     OWDLRuntimeError ''Invalid Workflow status for cancelling State''"

definition InvalidTransition_cancel_state_status :: error where
  "InvalidTransition_cancel_state_status =
     OWDLRuntimeError ''Invalid State status for cancelling State''"

definition InvalidTransition_retry :: error where
  "InvalidTransition_retry = OWDLRuntimeError ''Invalid Workflow status for retry''"

definition RetryLimitExceeded :: error where
  "RetryLimitExceeded = OWDLRuntimeError ''Retry limit reached''"

definition NoStateStarted :: error where
  "NoStateStarted = OWDLRuntimeError
     ''Cannot get state instance of a Workflow that has not started any state instances''"

text \<open>
  The backend is a collaborator of the driver. Each call the driver makes is recorded, in
  order, in a log; an answer of the backend may depend on the calls made before, so a
  backend with state of its own is covered. An answer is a value or a raised error.
\<close>

datatype backend_call =
    StartContainers string string "string list" "int option"
  | GetContainers "string list"
  | StopContainers "string list"

record OneDockerService =
  start_containers :: "backend_call list \<Rightarrow> string \<Rightarrow> string \<Rightarrow> string list \<Rightarrow> int option
                         \<Rightarrow> error + ContainerInstance list"
  get_containers :: "backend_call list \<Rightarrow> string list \<Rightarrow> error + ContainerInstance list"
  stop_containers :: "backend_call list \<Rightarrow> string list \<Rightarrow> error + unit"

subsection \<open>The driver\<close>

text \<open>
  The driver object: its workflow instance, its workflow, and the log of the calls made on
  \<open>self.onedocker\<close>. A method takes the driver and returns its result (\<open>Inl\<close> a raised
  error) together with the driver as the method leaves it; what was assigned before a
  raise stays assigned.
\<close>

record OWDLDriver =
  owdl_workflow_instance :: OWDLWorkflowInstance
  owdl_workflow :: OWDLWorkflow
  onedocker_calls :: "backend_call list"

text \<open>
  \<open>__init__\<close> with a workflow supplied: a new instance, CREATED, with no state
  instances. (The repository, which stores the new instance, is not modelled.)
\<close>

definition new_driver :: "string \<Rightarrow> OWDLWorkflow \<Rightarrow> OWDLDriver" where
  "new_driver iid workflow =
     \<lparr>owdl_workflow_instance =
        \<lparr>instance_id_wi = iid, owdl_workflow_wi = workflow, state_instances = [],
         status_wi = W_CREATED\<rparr>,
      owdl_workflow = workflow,
      onedocker_calls = []\<rparr>"

text \<open>The assignment \<open>self.owdl_workflow_instance.status = st\<close>.\<close>

definition set_workflow_status :: "WorkflowStatus \<Rightarrow> OWDLDriver \<Rightarrow> OWDLDriver" where
  "set_workflow_status st self =
     self\<lparr>owdl_workflow_instance := (owdl_workflow_instance self)\<lparr>status_wi := st\<rparr>\<rparr>"

text \<open>
  Assignments to a field of the current state instance, the object
  \<open>state_instances[-1]\<close>: the list holds the object itself, so the last element of the
  list changes. Both are used only after \<open>get_current_state_instance\<close> has returned.
\<close>

definition update_current :: "(OWDLStateInstance \<Rightarrow> OWDLStateInstance) \<Rightarrow> OWDLDriver \<Rightarrow> OWDLDriver" where
  "update_current f self =
     (let sis = state_instances (owdl_workflow_instance self)
      in if sis = [] then self
         else self\<lparr>owdl_workflow_instance :=
                (owdl_workflow_instance self)\<lparr>state_instances := butlast sis @ [f (last sis)]\<rparr>\<rparr>)"

definition set_current_status :: "StateStatus \<Rightarrow> OWDLDriver \<Rightarrow> OWDLDriver" where
  "set_current_status st self = update_current (\<lambda>si. si\<lparr>status_si := st\<rparr>) self"

definition set_current_containers :: "ContainerInstance list \<Rightarrow> OWDLDriver \<Rightarrow> OWDLDriver" where
  "set_current_containers cl self = update_current (\<lambda>si. si\<lparr>containers := cl\<rparr>) self"

definition log_call :: "backend_call \<Rightarrow> OWDLDriver \<Rightarrow> OWDLDriver" where
  "log_call c self = self\<lparr>onedocker_calls := onedocker_calls self @ [c]\<rparr>"

definition get_current_state_instance :: "OWDLDriver \<Rightarrow> error + OWDLStateInstance" where
  "get_current_state_instance self =
     (if state_instances (owdl_workflow_instance self) = [] then Inl NoStateStarted
      else Inr (last (state_instances (owdl_workflow_instance self))))"

definition get_current_retry_num :: "OWDLDriver \<Rightarrow> error + int" where
  "get_current_retry_num self =
     (case get_current_state_instance self of
        Inl e \<Rightarrow> Inl e
      | Inr si \<Rightarrow> Inr (retry_num si))"

text \<open>\<open>_add_next_state_instance\<close>: append to the list of state instances.\<close>

definition add_next_state_instance :: "OWDLStateInstance \<Rightarrow> OWDLDriver \<Rightarrow> OWDLDriver" where
  "add_next_state_instance state_inst self =
     self\<lparr>owdl_workflow_instance :=
       (owdl_workflow_instance self)
         \<lparr>state_instances := state_instances (owdl_workflow_instance self) @ [state_inst]\<rparr>\<rparr>"

text \<open>
  \<open>_get_retry_num\<close>: the sum, over the state instances, of the truth values of
  \<open>state_inst.owdl_state == curr_state\<close>, True counting 1 and False 0. The driver
  writes \<open>==\<close> here, where it writes \<open>is\<close> for the members of the status
  enumerations; \<open>==\<close> of two states is equality of the records, that is, of the values of
  their fields.
\<close>

definition get_retry_num :: "OWDLDriver \<Rightarrow> OWDLState \<Rightarrow> int" where
  "get_retry_num self curr_state =
     sum_list (map (\<lambda>state_inst. if owdl_state state_inst = curr_state then 1 else 0)
                   (state_instances (owdl_workflow_instance self)))"

text \<open>
  The \<open>if args:\<close> block of \<open>_run_state\<close>. \<open>None\<close> and the empty list are both false
  in Python, and then the base list is used as it is, with no check of the length.
\<close>

fun merge_args :: "string list \<Rightarrow> string list option \<Rightarrow> error + string list" where
  "merge_args cmd_args None = Inr cmd_args"
| "merge_args cmd_args (Some args) =
     (if args = [] then Inr cmd_args
      else if length args \<noteq> length cmd_args then Inl InvalidArguments
      else Inr (map (\<lambda>(old_arg, new_arg). old_arg @ '' '' @ new_arg) (zip cmd_args args)))"

text \<open>\<open>_run_state\<close>.\<close>

definition run_state ::
  "OneDockerService \<Rightarrow> OWDLState \<Rightarrow> string list option \<Rightarrow> OWDLDriver \<Rightarrow> (error + unit) \<times> OWDLDriver" where
  "run_state onedocker curr_state args self =
     (case merge_args (cmd_args_list curr_state) args of
        Inl e \<Rightarrow> (Inl e, self)
      | Inr cmd \<Rightarrow>
          (let self1 = log_call (StartContainers (container_definition curr_state)
                                   (package_name curr_state) cmd (timeout curr_state)) self
           in case start_containers onedocker (onedocker_calls self)
                     (container_definition curr_state) (package_name curr_state) cmd
                     (timeout curr_state) of
                Inl e \<Rightarrow> (Inl e, self1)
              | Inr container_list \<Rightarrow>
                  (Inr (),
                   add_next_state_instance
                     \<lparr>owdl_state = curr_state, containers = container_list,
                      status_si = S_STARTED, retry_num = get_retry_num self1 curr_state\<rparr>
                     self1)))"

definition start :: "OneDockerService \<Rightarrow> OWDLDriver \<Rightarrow> (error + unit) \<times> OWDLDriver" where
  "start onedocker self =
     (if status_wi (owdl_workflow_instance self) \<noteq> W_CREATED
      then (Inl InvalidTransition_start, self)
      else case states (owdl_workflow self) (starts_at (owdl_workflow self)) of
             None \<Rightarrow> (Inl (KeyError (starts_at (owdl_workflow self))), self)
           | Some curr_state \<Rightarrow>
               (case run_state onedocker curr_state None self of
                  (Inl e, self1) \<Rightarrow> (Inl e, self1)
                | (Inr u, self1) \<Rightarrow>
                    (Inr (),
                     if status_wi (owdl_workflow_instance self1) = W_CREATED
                     then set_workflow_status W_STARTED self1 else self1)))"

text \<open>The method \<open>next\<close>.\<close>

definition next_op ::
  "OneDockerService \<Rightarrow> string list option \<Rightarrow> OWDLDriver \<Rightarrow> (error + unit) \<times> OWDLDriver" where
  "next_op onedocker args self =
     (case get_current_state_instance self of
        Inl e \<Rightarrow> (Inl e, self)
      | Inr curr_state_instance \<Rightarrow>
          (let curr_state = owdl_state curr_state_instance
           in if status_wi (owdl_workflow_instance self) \<noteq> W_STARTED
                 \<or> status_si curr_state_instance \<noteq> S_COMPLETED
              then (Inl InvalidTransition_next, self)
              else if state_end curr_state
              then (Inr (), set_workflow_status W_COMPLETED self)
              else case state_next curr_state of
                     None \<Rightarrow> run_state onedocker curr_state args self
                   | Some n \<Rightarrow>
                       (case states (owdl_workflow self) n of
                          None \<Rightarrow> (Inl (KeyError n), self)
                        | Some next_state \<Rightarrow> run_state onedocker next_state args self)))"

text \<open>\<open>_get_workflow_status\<close>.\<close>

definition get_workflow_status :: "OWDLDriver \<Rightarrow> StateStatus \<Rightarrow> WorkflowStatus" where
  "get_workflow_status self status =
     (if status = S_FAILED then W_FAILED
      else if status = S_CANCELLED then W_CANCELLED
      else status_wi (owdl_workflow_instance self))"

definition get_status ::
  "OneDockerService \<Rightarrow> OWDLDriver \<Rightarrow> (error + OWDLWorkflowInstance) \<times> OWDLDriver" where
  "get_status onedocker self =
     (if status_wi (owdl_workflow_instance self) \<in> set [W_CREATED, W_COMPLETED]
      then (Inr (owdl_workflow_instance self), self)
      else case get_current_state_instance self of
             Inl e \<Rightarrow> (Inl e, self)
           | Inr curr_state_instance \<Rightarrow>
               if status_si curr_state_instance = S_CANCELLED
               then (Inr (owdl_workflow_instance self), self)
               else
                 (let instance_ids = map instance_id (containers curr_state_instance);
                      self1 = log_call (GetContainers instance_ids) self
                  in case get_containers onedocker (onedocker_calls self) instance_ids of
                       Inl e \<Rightarrow> (Inl e, self1)
                     | Inr container_list \<Rightarrow>
                         (let self2 = set_current_containers container_list self1;
                              status = get_state_status container_list;
                              self3 = set_current_status status self2;
                              self4 = set_workflow_status (get_workflow_status self3 status) self3
                          in (Inr (owdl_workflow_instance self4), self4))))"

definition cancel_state :: "OneDockerService \<Rightarrow> OWDLDriver \<Rightarrow> (error + unit) \<times> OWDLDriver" where
  "cancel_state onedocker self =
     (if status_wi (owdl_workflow_instance self) \<noteq> W_STARTED
      then (Inl InvalidTransition_cancel_workflow_status, self)
      else case get_current_state_instance self of
             Inl e \<Rightarrow> (Inl e, self)
           | Inr curr_state_instance \<Rightarrow>
               if status_si curr_state_instance \<noteq> S_STARTED
               then (Inl InvalidTransition_cancel_state_status, self)
               else
                 (let self1 = set_current_status S_CANCELLED self;
                      instance_ids = map instance_id (containers curr_state_instance);
                      self2 = log_call (StopContainers instance_ids) self1
                  in case stop_containers onedocker (onedocker_calls self) instance_ids of
                       Inl e \<Rightarrow> (Inl e, self2)
                     | Inr u \<Rightarrow> (Inr (), self2)))"

definition retry ::
  "OneDockerService \<Rightarrow> string list option \<Rightarrow> OWDLDriver \<Rightarrow> (error + unit) \<times> OWDLDriver" where
  "retry onedocker args self =
     (if status_wi (owdl_workflow_instance self) \<in> set [W_CREATED, W_CANCELLED, W_COMPLETED]
      then (Inl InvalidTransition_retry, self)
      else case get_current_state_instance self of
             Inl e \<Rightarrow> (Inl e, self)
           | Inr curr_state_instance \<Rightarrow>
               if retry_num curr_state_instance \<ge> retry_count (owdl_state curr_state_instance)
               then (Inl RetryLimitExceeded, self)
               else if status_si curr_state_instance \<in> set [S_FAILED, S_CANCELLED]
               then run_state onedocker (owdl_state curr_state_instance) args
                      (set_current_status S_STARTED self)
               else (Inr (), self))"

definition is_completed :: "OWDLDriver \<Rightarrow> bool" where
  "is_completed self = (status_wi (owdl_workflow_instance self) = W_COMPLETED)"

definition cancel_workflow :: "OneDockerService \<Rightarrow> OWDLDriver \<Rightarrow> (error + unit) \<times> OWDLDriver" where
  "cancel_workflow onedocker self =
     (case cancel_state onedocker self of
        (Inl e, self1) \<Rightarrow> (Inl e, self1)
      | (Inr u, self1) \<Rightarrow> (Inr (), set_workflow_status W_CANCELLED self1))"

subsection \<open>Runs of the driver\<close>

text \<open>
  A run is a sequence of calls of the driver's methods on one driver, each call on the
  driver as the call before left it, whether that call returned or raised.
\<close>

datatype operation =
    Start
  | Next "string list option"
  | Retry "string list option"
  | GetStatus
  | CancelState
  | CancelWorkflow

fun step :: "OneDockerService \<Rightarrow> operation \<Rightarrow> OWDLDriver \<Rightarrow> OWDLDriver" where
  "step onedocker Start self = snd (start onedocker self)"
| "step onedocker (Next args) self = snd (next_op onedocker args self)"
| "step onedocker (Retry args) self = snd (retry onedocker args self)"
| "step onedocker GetStatus self = snd (get_status onedocker self)"
| "step onedocker CancelState self = snd (cancel_state onedocker self)"
| "step onedocker CancelWorkflow self = snd (cancel_workflow onedocker self)"

fun run_ops :: "OneDockerService \<Rightarrow> operation list \<Rightarrow> OWDLDriver \<Rightarrow> OWDLDriver" where
  "run_ops onedocker [] self = self"
| "run_ops onedocker (operation # rest) self = run_ops onedocker rest (step onedocker operation self)"

subsection \<open>Attempts and their numbering\<close>

text \<open>The number of state instances in a list that were made from the state \<open>d\<close>.\<close>

definition attempts_of :: "OWDLState \<Rightarrow> OWDLStateInstance list \<Rightarrow> nat" where
  "attempts_of d sis = length (filter (\<lambda>si. owdl_state si = d) sis)"

text \<open>
  What a run keeps of each attempt for good: the state it was made from and its retry
  number. The other two fields of a state instance, status and containers, are assigned
  again later.
\<close>

definition attempt_log :: "OWDLDriver \<Rightarrow> (OWDLState \<times> int) list" where
  "attempt_log self =
     map (\<lambda>si. (owdl_state si, retry_num si)) (state_instances (owdl_workflow_instance self))"

text \<open>
  A log, latest attempt first, is numbered well when the retry number of each attempt is
  the number of earlier attempts of the same state.
\<close>

fun retry_nums_ok :: "(OWDLState \<times> int) list \<Rightarrow> bool" where
  "retry_nums_ok [] = True"
| "retry_nums_ok (p # earlier) =
     (retry_nums_ok earlier \<and> snd p = int (length (filter (\<lambda>q. fst q = fst p) earlier)))"

text \<open>A method call leaves the log as it is or appends one attempt, numbered by the log.\<close>

definition grows :: "OWDLDriver \<Rightarrow> OWDLDriver \<Rightarrow> bool" where
  "grows self self' \<longleftrightarrow>
     attempt_log self' = attempt_log self
     \<or> (\<exists>d. attempt_log self' =
              attempt_log self @ [(d, int (length (filter (\<lambda>q. fst q = d) (attempt_log self))))])"

text \<open>A workflow instance that is still CREATED has no attempt yet.\<close>

definition created_empty :: "OWDLDriver \<Rightarrow> bool" where
  "created_empty self \<longleftrightarrow>
     (status_wi (owdl_workflow_instance self) = W_CREATED \<longrightarrow> attempt_log self = [])"

text \<open>The invariant of the runs that never call \<open>next\<close>, for a state \<open>d\<close>.\<close>

definition retry_only_inv :: "OWDLState \<Rightarrow> OWDLDriver \<Rightarrow> bool" where
  "retry_only_inv d self \<longleftrightarrow>
     retry_nums_ok (rev (attempt_log self)) \<and> created_empty self
     \<and> int (length (filter (\<lambda>q. fst q = d) (attempt_log self))) \<le> retry_count d + 1"

fun is_next :: "operation \<Rightarrow> bool" where
  "is_next (Next args) = True"
| "is_next operation = False"

subsection \<open>An example workflow\<close>

text \<open>
  Three states: A goes on to B and may be retried once, B ends the workflow, and C neither
  ends it nor names a next state. The example backend starts one container per call,
  reports every container it is asked about as FAILED, and stops containers without error.
\<close>

definition example_state_A :: OWDLState where
  "example_state_A =
     \<lparr>container_definition = ''cd'', package_name = ''pkg_a'', cmd_args_list = [''--input''],
      timeout = None, state_next = Some ''B'', state_end = False, retry_count = 1\<rparr>"

definition example_state_B :: OWDLState where
  "example_state_B =
     \<lparr>container_definition = ''cd'', package_name = ''pkg_b'', cmd_args_list = [],
      timeout = None, state_next = None, state_end = True, retry_count = 0\<rparr>"

definition example_state_C :: OWDLState where
  "example_state_C =
     \<lparr>container_definition = ''cd'', package_name = ''pkg_c'', cmd_args_list = [''--n''],
      timeout = Some 60, state_next = None, state_end = False, retry_count = 0\<rparr>"

definition example_workflow :: OWDLWorkflow where
  "example_workflow =
     \<lparr>starts_at = ''A'',
      states = [''A'' \<mapsto> example_state_A, ''B'' \<mapsto> example_state_B, ''C'' \<mapsto> example_state_C]\<rparr>"

definition example_onedocker :: OneDockerService where
  "example_onedocker =
     \<lparr>start_containers = (\<lambda>log cd pn args t. Inr [\<lparr>instance_id = pn, status_ci = C_STARTED\<rparr>]),
      get_containers = (\<lambda>log ids. Inr (map (\<lambda>i. \<lparr>instance_id = i, status_ci = C_FAILED\<rparr>) ids)),
      stop_containers = (\<lambda>log ids. Inr ())\<rparr>"

definition example_instance :: "OWDLState \<Rightarrow> StateStatus \<Rightarrow> int \<Rightarrow> OWDLStateInstance" where
  "example_instance d st n =
     \<lparr>owdl_state = d, containers = [\<lparr>instance_id = ''c1'', status_ci = C_UNKNOWN\<rparr>],
      status_si = st, retry_num = n\<rparr>"

definition example_driver :: "WorkflowStatus \<Rightarrow> OWDLStateInstance list \<Rightarrow> OWDLDriver" where
  "example_driver st sis =
     \<lparr>owdl_workflow_instance =
        \<lparr>instance_id_wi = ''run'', owdl_workflow_wi = example_workflow, state_instances = sis,
         status_wi = st\<rparr>,
      owdl_workflow = example_workflow,
      onedocker_calls = []\<rparr>"







section \<open>Properties\<close>

subsection \<open>Status aggregation\<close>

lemma get_state_status_loop_char:
  "get_state_status_loop hs cs =
     (if \<exists>c \<in> set cs. status_ci c = C_FAILED then S_FAILED
      else if hs \<or> (\<exists>c \<in> set cs. status_ci c = C_STARTED \<or> status_ci c = C_UNKNOWN) then S_STARTED
      else S_COMPLETED)"
  by (induction cs arbitrary: hs) auto

subsection \<open>The fields of the driver after each assignment\<close>

lemma status_wi_log_call [simp]:
  "status_wi (owdl_workflow_instance (log_call c self)) = status_wi (owdl_workflow_instance self)"
  by (simp add: log_call_def)

lemma status_wi_update_current [simp]:
  "status_wi (owdl_workflow_instance (update_current f self)) = status_wi (owdl_workflow_instance self)"
  by (simp add: update_current_def Let_def)

lemma state_instances_log_call [simp]:
  "state_instances (owdl_workflow_instance (log_call c self)) = state_instances (owdl_workflow_instance self)"
  by (simp add: log_call_def)

lemma state_instances_set_workflow_status [simp]:
  "state_instances (owdl_workflow_instance (set_workflow_status st self)) = state_instances (owdl_workflow_instance self)"
  by (simp add: set_workflow_status_def)

lemma status_wi_set_workflow_status [simp]:
  "status_wi (owdl_workflow_instance (set_workflow_status st self)) = st"
  by (simp add: set_workflow_status_def)

lemma state_instances_update_current [simp]:
  "state_instances (owdl_workflow_instance (update_current f self)) =
     (if state_instances (owdl_workflow_instance self) = [] then []
      else butlast (state_instances (owdl_workflow_instance self)) @
             [f (last (state_instances (owdl_workflow_instance self)))])"
  by (simp add: update_current_def Let_def)

lemma state_instances_add_next [simp]:
  "state_instances (owdl_workflow_instance (add_next_state_instance x self)) =
     state_instances (owdl_workflow_instance self) @ [x]"
  by (simp add: add_next_state_instance_def)

lemma status_wi_add_next [simp]:
  "status_wi (owdl_workflow_instance (add_next_state_instance x self)) = status_wi (owdl_workflow_instance self)"
  by (simp add: add_next_state_instance_def)

lemma onedocker_calls_update_current [simp]:
  "onedocker_calls (update_current f self) = onedocker_calls self"
  by (simp add: update_current_def Let_def)

lemma onedocker_calls_set_workflow_status [simp]:
  "onedocker_calls (set_workflow_status st self) = onedocker_calls self"
  by (simp add: set_workflow_status_def)

subsection \<open>The attempt log after each assignment\<close>

lemma attempt_log_log_call [simp]: "attempt_log (log_call c self) = attempt_log self"
  by (simp add: attempt_log_def)

lemma attempt_log_set_workflow_status [simp]:
  "attempt_log (set_workflow_status st self) = attempt_log self"
  by (simp add: attempt_log_def)

lemma map_butlast_snoc:
  "xs \<noteq> [] \<Longrightarrow> map g (butlast xs) @ [g (last xs)] = map g xs"
  by (induction xs) auto

lemma attempt_log_butlast:
  "sis \<noteq> [] \<Longrightarrow>
   map (\<lambda>si. (owdl_state si, retry_num si)) (butlast sis) @
     [(owdl_state (last sis), retry_num (last sis))] =
   map (\<lambda>si. (owdl_state si, retry_num si)) sis"
  using map_butlast_snoc [of sis "\<lambda>si. (owdl_state si, retry_num si)"] by simp

lemma attempt_log_set_current_status [simp]:
  "attempt_log (set_current_status st self) = attempt_log self"
  unfolding attempt_log_def set_current_status_def
  by (simp add: attempt_log_butlast)

lemma attempt_log_set_current_containers [simp]:
  "attempt_log (set_current_containers cl self) = attempt_log self"
  unfolding attempt_log_def set_current_containers_def
  by (simp add: attempt_log_butlast)

lemma attempt_log_add_next [simp]:
  "attempt_log (add_next_state_instance x self) = attempt_log self @ [(owdl_state x, retry_num x)]"
  by (simp add: attempt_log_def)

lemma attempts_of_attempt_log:
  "int (attempts_of d (state_instances (owdl_workflow_instance self))) =
     int (length (filter (\<lambda>q. fst q = d) (attempt_log self)))"
  by (simp add: attempts_of_def attempt_log_def filter_map comp_def)

lemma attempts_of_log:
  "attempts_of d (state_instances (owdl_workflow_instance self)) =
     length (filter (\<lambda>q. fst q = d) (attempt_log self))"
  by (simp add: attempts_of_def attempt_log_def filter_map comp_def)

subsection \<open>State execution\<close>

lemma sum_list_indicator:
  "sum_list (map (\<lambda>x. if P x then (1::int) else 0) xs) = int (length (filter P xs))"
  by (induction xs) auto

lemma get_retry_num_count:
  "get_retry_num self curr_state =
     int (length (filter (\<lambda>si. owdl_state si = curr_state) (state_instances (owdl_workflow_instance self))))"
  unfolding get_retry_num_def by (rule sum_list_indicator)

lemma get_retry_num_log:
  "get_retry_num self d = int (length (filter (\<lambda>q. fst q = d) (attempt_log self)))"
  by (simp add: get_retry_num_count attempts_of_log [unfolded attempts_of_def])

lemma run_state_ok:
  assumes "merge_args (cmd_args_list curr_state) args = Inr cmd"
    and "start_containers onedocker (onedocker_calls self) (container_definition curr_state)
           (package_name curr_state) cmd (timeout curr_state) = Inr container_list"
  shows "run_state onedocker curr_state args self =
     (Inr (),
      self\<lparr>owdl_workflow_instance :=
             (owdl_workflow_instance self)
               \<lparr>state_instances := state_instances (owdl_workflow_instance self) @
                  [\<lparr>owdl_state = curr_state, containers = container_list, status_si = S_STARTED,
                    retry_num = get_retry_num self curr_state\<rparr>]\<rparr>,
           onedocker_calls := onedocker_calls self @
             [StartContainers (container_definition curr_state) (package_name curr_state) cmd
                (timeout curr_state)]\<rparr>)"
  using assms
  by (simp add: run_state_def log_call_def add_next_state_instance_def get_retry_num_def)

lemma run_state_success:
  assumes "fst (run_state onedocker d args self) = Inr ()"
  shows "\<exists>cmd cl. merge_args (cmd_args_list d) args = Inr cmd
     \<and> start_containers onedocker (onedocker_calls self) (container_definition d)
           (package_name d) cmd (timeout d) = Inr cl"
  using assms by (auto simp: run_state_def Let_def split: sum.splits)

lemma run_state_attempt_log:
  "attempt_log (snd (run_state onedocker d args self)) = attempt_log self
   \<or> (fst (run_state onedocker d args self) = Inr () \<and>
      attempt_log (snd (run_state onedocker d args self)) =
       attempt_log self @ [(d, int (length (filter (\<lambda>q. fst q = d) (attempt_log self))))])"
  by (auto simp: run_state_def Let_def get_retry_num_count attempts_of_attempt_log [unfolded attempts_of_def]
           split: sum.splits)

lemma run_state_status_wi [simp]:
  "status_wi (owdl_workflow_instance (snd (run_state onedocker d args self))) =
     status_wi (owdl_workflow_instance self)"
  by (auto simp: run_state_def Let_def split: sum.splits)

subsection \<open>Every method leaves the log or appends one numbered attempt\<close>

lemma grows_refl [simp]: "grows self self"
  by (simp add: grows_def)

lemma grows_same: "attempt_log self' = attempt_log self \<Longrightarrow> grows self self'"
  by (simp add: grows_def)

lemma grows_cong: "attempt_log a = attempt_log b \<Longrightarrow> grows a c \<Longrightarrow> grows b c"
  by (simp add: grows_def)

lemma grows_run_state: "grows self (snd (run_state onedocker d args self))"
  using run_state_attempt_log [of onedocker d args self] by (auto simp: grows_def)

lemma start_attempt_log:
  "attempt_log (snd (start onedocker self)) =
     (if status_wi (owdl_workflow_instance self) \<noteq> W_CREATED then attempt_log self
      else case states (owdl_workflow self) (starts_at (owdl_workflow self)) of
             None \<Rightarrow> attempt_log self
           | Some d \<Rightarrow> attempt_log (snd (run_state onedocker d None self)))"
  by (simp add: start_def split: option.splits prod.splits sum.splits)

lemma grows_start: "grows self (snd (start onedocker self))"
  using grows_run_state [of self onedocker _ None]
  by (auto simp: grows_def start_attempt_log split: option.splits)

lemma grows_next_op: "grows self (snd (next_op onedocker args self))"
  by (auto simp: next_op_def Let_def grows_run_state grows_same split: option.splits sum.splits)

lemma grows_retry: "grows self (snd (retry onedocker args self))"
proof -
  have "grows (set_current_status S_STARTED self)
          (snd (run_state onedocker d args (set_current_status S_STARTED self)))" for d
    by (rule grows_run_state)
  then have "grows self (snd (run_state onedocker d args (set_current_status S_STARTED self)))" for d
    by (rule grows_cong [rotated]) simp
  then show ?thesis
    by (auto simp: retry_def split: sum.splits)
qed

lemma grows_get_status: "grows self (snd (get_status onedocker self))"
  by (auto simp: get_status_def Let_def grows_def split: sum.splits)

lemma grows_cancel_state: "grows self (snd (cancel_state onedocker self))"
  by (auto simp: cancel_state_def Let_def grows_def split: sum.splits)

lemma snd_cancel_workflow:
  "snd (cancel_workflow onedocker self) =
     (case fst (cancel_state onedocker self) of
        Inl e \<Rightarrow> snd (cancel_state onedocker self)
      | Inr u \<Rightarrow> set_workflow_status W_CANCELLED (snd (cancel_state onedocker self)))"
  by (simp add: cancel_workflow_def split: prod.splits sum.splits)

lemma grows_cancel_workflow: "grows self (snd (cancel_workflow onedocker self))"
  using grows_cancel_state [of self onedocker]
  by (auto simp: cancel_workflow_def grows_def split: sum.splits prod.splits)

lemma grows_step: "grows self (step onedocker operation self)"
  by (cases operation)
     (simp_all add: grows_start grows_next_op grows_retry grows_get_status grows_cancel_state
        grows_cancel_workflow)

lemma grows_retry_nums_ok:
  "grows self self' \<Longrightarrow> retry_nums_ok (rev (attempt_log self)) \<Longrightarrow> retry_nums_ok (rev (attempt_log self'))"
  by (auto simp: grows_def rev_filter [symmetric])

lemma run_ops_retry_nums_ok:
  "retry_nums_ok (rev (attempt_log self)) \<Longrightarrow> retry_nums_ok (rev (attempt_log (run_ops onedocker ops self)))"
  by (induction ops arbitrary: self) (auto intro: grows_retry_nums_ok grows_step)

lemma run_ops_new_driver_ok:
  "retry_nums_ok (rev (attempt_log (run_ops onedocker ops (new_driver iid workflow))))"
  by (rule run_ops_retry_nums_ok) (simp add: attempt_log_def new_driver_def)


subsection \<open>Retry\<close>

lemma retry_unfold:
  assumes "status_wi (owdl_workflow_instance self) \<notin> set [W_CREATED, W_CANCELLED, W_COMPLETED]"
    and "state_instances (owdl_workflow_instance self) \<noteq> []"
    and "status_si (last (state_instances (owdl_workflow_instance self))) \<in> {S_FAILED, S_CANCELLED}"
    and "retry_num (last (state_instances (owdl_workflow_instance self)))
           < retry_count (owdl_state (last (state_instances (owdl_workflow_instance self))))"
  shows "retry onedocker args self =
           run_state onedocker (owdl_state (last (state_instances (owdl_workflow_instance self)))) args
             (set_current_status S_STARTED self)"
  using assms by (auto simp: retry_def get_current_state_instance_def)

lemma retry_attempt_log:
  "attempt_log (snd (retry onedocker args self)) = attempt_log self
   \<or> (state_instances (owdl_workflow_instance self) \<noteq> []
      \<and> retry_num (last (state_instances (owdl_workflow_instance self)))
           < retry_count (owdl_state (last (state_instances (owdl_workflow_instance self))))
      \<and> attempt_log (snd (retry onedocker args self)) =
          attempt_log self @
            [(owdl_state (last (state_instances (owdl_workflow_instance self))),
              int (length (filter (\<lambda>q. fst q = owdl_state (last (state_instances (owdl_workflow_instance self))))
                             (attempt_log self))))])"
  using run_state_attempt_log
          [of onedocker "owdl_state (last (state_instances (owdl_workflow_instance self)))" args
              "set_current_status S_STARTED self"]
  by (auto simp: retry_def get_current_state_instance_def)

lemma last_retry_num:
  assumes "retry_nums_ok (rev (attempt_log self))"
    and "state_instances (owdl_workflow_instance self) \<noteq> []"
  shows "int (length (filter (\<lambda>q. fst q = owdl_state (last (state_instances (owdl_workflow_instance self))))
                        (attempt_log self))) =
         retry_num (last (state_instances (owdl_workflow_instance self))) + 1"
proof -
  from assms(2) obtain ys y where sis: "state_instances (owdl_workflow_instance self) = ys @ [y]"
    by (cases "state_instances (owdl_workflow_instance self)" rule: rev_cases) auto
  with assms(1) show ?thesis
    by (simp add: attempt_log_def rev_filter [symmetric])
qed

lemma retry_bound_step:
  assumes "retry_nums_ok (rev (attempt_log self))"
  shows "int (attempts_of d (state_instances (owdl_workflow_instance (snd (retry onedocker args self)))))
           \<le> max (int (attempts_of d (state_instances (owdl_workflow_instance self)))) (retry_count d + 1)"
  using retry_attempt_log [of onedocker args self] last_retry_num [OF assms]
  by (auto simp: attempts_of_log)

lemma retry_status_wi [simp]:
  "status_wi (owdl_workflow_instance (snd (retry onedocker args self))) =
     status_wi (owdl_workflow_instance self)"
  by (auto simp: retry_def set_current_status_def split: sum.splits)

subsection \<open>Runs without next\<close>

lemma get_status_attempt_log [simp]:
  "attempt_log (snd (get_status onedocker self)) = attempt_log self"
  by (auto simp: get_status_def Let_def split: sum.splits)

lemma cancel_state_attempt_log [simp]:
  "attempt_log (snd (cancel_state onedocker self)) = attempt_log self"
  by (auto simp: cancel_state_def Let_def split: sum.splits)

lemma cancel_workflow_attempt_log [simp]:
  "attempt_log (snd (cancel_workflow onedocker self)) = attempt_log self"
  by (simp add: snd_cancel_workflow split: sum.splits)

lemma start_not_created:
  "status_wi (owdl_workflow_instance self) \<noteq> W_CREATED \<Longrightarrow> start onedocker self = (Inl InvalidTransition_start, self)"
  by (simp add: start_def)

lemma start_created:
  assumes "status_wi (owdl_workflow_instance self) = W_CREATED"
  shows "(status_wi (owdl_workflow_instance (snd (start onedocker self))) = W_CREATED
           \<and> attempt_log (snd (start onedocker self)) = attempt_log self)
       \<or> (status_wi (owdl_workflow_instance (snd (start onedocker self))) = W_STARTED
           \<and> (\<exists>p. attempt_log (snd (start onedocker self)) = attempt_log self @ [p]))"
proof (cases "states (owdl_workflow self) (starts_at (owdl_workflow self))")
  case None
  with assms show ?thesis by (simp add: start_def)
next
  case (Some d)
  obtain r self1 where r: "run_state onedocker d None self = (r, self1)" by force
  have st: "status_wi (owdl_workflow_instance self1) = W_CREATED"
    using run_state_status_wi [of onedocker d None self] r assms by simp
  show ?thesis
  proof (cases r)
    case (Inl e)
    with r have "attempt_log self1 = attempt_log self"
      using run_state_attempt_log [of onedocker d None self] by auto
    with Inl r Some assms st show ?thesis by (simp add: start_def)
  next
    case (Inr u)
    with r have "\<exists>p. attempt_log self1 = attempt_log self @ [p]"
      by (auto simp: run_state_def Let_def split: sum.splits)
    with Inr r Some assms st show ?thesis by (simp add: start_def)
  qed
qed

lemma created_empty_start: "created_empty self \<Longrightarrow> created_empty (snd (start onedocker self))"
  using start_created [of self onedocker] start_not_created [of self onedocker]
  by (cases "status_wi (owdl_workflow_instance self) = W_CREATED") (auto simp: created_empty_def)

lemma created_empty_retry: "created_empty self \<Longrightarrow> created_empty (snd (retry onedocker args self))"
proof (cases "status_wi (owdl_workflow_instance self) = W_CREATED")
  case True
  then have "retry onedocker args self = (Inl InvalidTransition_retry, self)"
    by (simp add: retry_def)
  then show "created_empty self \<Longrightarrow> ?thesis" by simp
next
  case False
  then show ?thesis by (simp add: created_empty_def)
qed

lemma created_empty_get_status:
  "created_empty self \<Longrightarrow> created_empty (snd (get_status onedocker self))"
  by (auto simp: created_empty_def get_status_def Let_def get_workflow_status_def
        set_current_status_def set_current_containers_def split: sum.splits if_splits)

lemma created_empty_cancel_state:
  "created_empty self \<Longrightarrow> created_empty (snd (cancel_state onedocker self))"
  by (auto simp: created_empty_def cancel_state_def Let_def set_current_status_def
        split: sum.splits if_splits)

lemma created_empty_cancel_workflow:
  "created_empty self \<Longrightarrow> created_empty (snd (cancel_workflow onedocker self))"
  using created_empty_cancel_state [of self onedocker]
  by (auto simp: created_empty_def snd_cancel_workflow split: sum.splits)

lemma start_bound:
  assumes "created_empty self" and "0 \<le> retry_count d"
    and "int (length (filter (\<lambda>q. fst q = d) (attempt_log self))) \<le> retry_count d + 1"
  shows "int (length (filter (\<lambda>q. fst q = d) (attempt_log (snd (start onedocker self))))) \<le> retry_count d + 1"
proof (cases "status_wi (owdl_workflow_instance self) = W_CREATED")
  case True
  with assms(1) have "attempt_log self = []" by (simp add: created_empty_def)
  with start_created [OF True, of onedocker] assms(2) show ?thesis by auto
next
  case False
  with assms(3) show ?thesis by (simp add: start_not_created)
qed

lemma retry_only_inv_step:
  assumes "\<not> is_next operation" and "0 \<le> retry_count d" and "retry_only_inv d self"
  shows "retry_only_inv d (step onedocker operation self)"
proof -
  from assms(3) have ok: "retry_nums_ok (rev (attempt_log self))"
    and ce: "created_empty self"
    and bd: "int (length (filter (\<lambda>q. fst q = d) (attempt_log self))) \<le> retry_count d + 1"
    by (simp_all add: retry_only_inv_def)
  have ok': "retry_nums_ok (rev (attempt_log (step onedocker operation self)))"
    using grows_step ok by (rule grows_retry_nums_ok)
  have ce': "created_empty (step onedocker operation self)"
    using ce assms(1)
    by (cases operation)
       (simp_all add: created_empty_start created_empty_retry created_empty_get_status
          created_empty_cancel_state created_empty_cancel_workflow)
  have bd': "int (length (filter (\<lambda>q. fst q = d) (attempt_log (step onedocker operation self))))
               \<le> retry_count d + 1"
  proof (cases operation)
    case Start
    then show ?thesis using start_bound [OF ce assms(2) bd] by simp
  next
    case (Next a)
    with assms(1) show ?thesis by simp
  next
    case (Retry a)
    then show ?thesis
      using retry_bound_step [OF ok, of d onedocker a] bd by (simp add: attempts_of_log)
  qed (use bd in simp_all)
  show ?thesis using ok' ce' bd' by (simp add: retry_only_inv_def)
qed

lemma retry_only_inv_run:
  "list_all (\<lambda>operation. \<not> is_next operation) ops \<Longrightarrow> 0 \<le> retry_count d \<Longrightarrow>
   retry_only_inv d self \<Longrightarrow> retry_only_inv d (run_ops onedocker ops self)"
  by (induction ops arbitrary: self) (simp_all add: retry_only_inv_step)

subsection \<open>Cancellation\<close>

lemma cancel_state_cases:
  "cancel_state onedocker self =
     (if status_wi (owdl_workflow_instance self) \<noteq> W_STARTED
      then (Inl InvalidTransition_cancel_workflow_status, self)
      else if state_instances (owdl_workflow_instance self) = []
      then (Inl NoStateStarted, self)
      else if status_si (last (state_instances (owdl_workflow_instance self))) \<noteq> S_STARTED
      then (Inl InvalidTransition_cancel_state_status, self)
      else (case stop_containers onedocker (onedocker_calls self)
                  (map instance_id (containers (last (state_instances (owdl_workflow_instance self))))) of
              Inl e \<Rightarrow> Inl e | Inr u \<Rightarrow> Inr (),
            log_call (StopContainers (map instance_id (containers (last (state_instances (owdl_workflow_instance self))))))
              (set_current_status S_CANCELLED self)))"
  by (simp add: cancel_state_def get_current_state_instance_def Let_def split: sum.splits)

subsection \<open>The example, evaluated\<close>

lemmas driver_defs =
  run_state_def log_call_def add_next_state_instance_def get_retry_num_def
  get_current_state_instance_def set_current_status_def set_current_containers_def
  update_current_def set_workflow_status_def Let_def

lemma example_retry_failed:
  "retry example_onedocker None (example_driver W_FAILED [example_instance example_state_A S_FAILED 0]) =
     (Inr (),
      \<lparr>owdl_workflow_instance =
        \<lparr>instance_id_wi = ''run'', owdl_workflow_wi = example_workflow,
         state_instances =
           [example_instance example_state_A S_STARTED 0,
            \<lparr>owdl_state = example_state_A,
             containers = [\<lparr>instance_id = ''pkg_a'', status_ci = C_STARTED\<rparr>],
             status_si = S_STARTED, retry_num = 1\<rparr>],
         status_wi = W_FAILED\<rparr>,
       owdl_workflow = example_workflow,
       onedocker_calls = [StartContainers ''cd'' ''pkg_a'' [''--input''] None]\<rparr>)"
  by (simp add: retry_def driver_defs example_driver_def example_instance_def example_onedocker_def
        example_state_A_def)




lemma example_retry_mismatch:
  "retry example_onedocker (Some [''a'', ''b''])
     (example_driver W_FAILED [example_instance example_state_A S_FAILED 0]) =
     (Inl InvalidArguments, example_driver W_FAILED [example_instance example_state_A S_STARTED 0])"
  by (simp add: retry_def driver_defs example_driver_def example_instance_def example_onedocker_def
        example_state_A_def)

lemma example_next_empty_args:
  "next_op example_onedocker (Some [])
     (example_driver W_STARTED [example_instance example_state_C S_COMPLETED 0]) =
     (Inr (),
      \<lparr>owdl_workflow_instance =
        \<lparr>instance_id_wi = ''run'', owdl_workflow_wi = example_workflow,
         state_instances =
           [example_instance example_state_C S_COMPLETED 0,
            \<lparr>owdl_state = example_state_C,
             containers = [\<lparr>instance_id = ''pkg_c'', status_ci = C_STARTED\<rparr>],
             status_si = S_STARTED, retry_num = 1\<rparr>],
         status_wi = W_STARTED\<rparr>,
       owdl_workflow = example_workflow,
       onedocker_calls = [StartContainers ''cd'' ''pkg_c'' [''--n''] (Some 60)]\<rparr>)"
  by (simp add: next_op_def driver_defs example_driver_def example_instance_def example_onedocker_def
        example_state_C_def)

section \<open>The claims\<close>

subsection \<open>C1: a successful retry\<close>

text \<open>
  C1, as the source has it. Let the workflow status be none of CREATED, CANCELLED and
  COMPLETED, and let the current state instance be FAILED or CANCELLED with a retry number
  below the retry limit of its state. A call of \<open>retry\<close> that returns then leaves the
  earlier state instances as they were, has assigned STARTED to the status of the current
  one (its other fields unchanged), and has appended one state instance for the same
  state, with status STARTED and with the number of attempts of that state so far as its
  retry number.
\<close>

theorem retry_appends_started:
  assumes "status_wi (owdl_workflow_instance self) \<notin> set [W_CREATED, W_CANCELLED, W_COMPLETED]"
    and "sis = state_instances (owdl_workflow_instance self)"
    and "sis \<noteq> []"
    and "status_si (last sis) \<in> {S_FAILED, S_CANCELLED}"
    and "retry_num (last sis) < retry_count (owdl_state (last sis))"
    and "fst (retry onedocker args self) = Inr ()"
  shows "\<exists>container_list.
           state_instances (owdl_workflow_instance (snd (retry onedocker args self))) =
             butlast sis @
               [(last sis)\<lparr>status_si := S_STARTED\<rparr>,
                \<lparr>owdl_state = owdl_state (last sis), containers = container_list,
                 status_si = S_STARTED,
                 retry_num = int (length (filter (\<lambda>si. owdl_state si = owdl_state (last sis)) sis))\<rparr>]"
proof -
  let ?d = "owdl_state (last sis)"
  let ?self1 = "set_current_status S_STARTED self"
  have unf: "retry onedocker args self = run_state onedocker ?d args ?self1"
    using assms(1-5) retry_unfold by simp
  with assms(6) have "fst (run_state onedocker ?d args ?self1) = Inr ()" by simp
  from run_state_success [OF this] obtain cmd cl where
    m: "merge_args (cmd_args_list ?d) args = Inr cmd" and
    c: "start_containers onedocker (onedocker_calls ?self1) (container_definition ?d)
           (package_name ?d) cmd (timeout ?d) = Inr cl"
    by blast
  have n: "get_retry_num ?self1 ?d = int (length (filter (\<lambda>si. owdl_state si = ?d) sis))"
    using assms(2) by (simp add: get_retry_num_log) (simp add: attempt_log_def filter_map comp_def)
  have "state_instances (owdl_workflow_instance (snd (retry onedocker args self))) =
          butlast sis @ [(last sis)\<lparr>status_si := S_STARTED\<rparr>,
             \<lparr>owdl_state = ?d, containers = cl, status_si = S_STARTED,
              retry_num = int (length (filter (\<lambda>si. owdl_state si = ?d) sis))\<rparr>]"
    unfolding unf run_state_ok [OF m c] n [symmetric]
    using assms(2,3) by (simp add: set_current_status_def)
  then show ?thesis by blast
qed

theorem retry_appends_started_witness:
  "\<exists>container_list.
     state_instances (owdl_workflow_instance (snd (retry example_onedocker None
        (example_driver W_FAILED [example_instance example_state_A S_FAILED 0])))) =
     [example_instance example_state_A S_STARTED 0,
      \<lparr>owdl_state = example_state_A, containers = container_list, status_si = S_STARTED,
       retry_num = 1\<rparr>]"
proof -
  let ?self = "example_driver W_FAILED [example_instance example_state_A S_FAILED 0]"
  have h1: "status_wi (owdl_workflow_instance ?self) \<notin> set [W_CREATED, W_CANCELLED, W_COMPLETED]"
    by (simp add: example_driver_def)
  have h2: "[example_instance example_state_A S_FAILED 0] = state_instances (owdl_workflow_instance ?self)"
    by (simp add: example_driver_def)
  have h3: "[example_instance example_state_A S_FAILED 0] \<noteq> []" by simp
  have h4: "status_si (last [example_instance example_state_A S_FAILED 0]) \<in> {S_FAILED, S_CANCELLED}"
    by (simp add: example_instance_def)
  have h5: "retry_num (last [example_instance example_state_A S_FAILED 0])
              < retry_count (owdl_state (last [example_instance example_state_A S_FAILED 0]))"
    by (simp add: example_instance_def example_state_A_def)
  have h6: "fst (retry example_onedocker None ?self) = Inr ()"
    by (simp add: example_retry_failed)
  from retry_appends_started [OF h1 h2 h3 h4 h5 h6] show ?thesis
    by (simp add: example_instance_def)
qed

text \<open>
  The claim as written says that the earlier record stays FAILED or CANCELLED. In the
  example, A has failed once and may be retried once; \<open>retry\<close> returns, and the first
  state instance, FAILED before the call, is STARTED after it.
\<close>

theorem retry_mutates_prior_counterexample:
  "status_wi (owdl_workflow_instance
      (example_driver W_FAILED [example_instance example_state_A S_FAILED 0])) = W_FAILED
   \<and> status_si (example_instance example_state_A S_FAILED 0) = S_FAILED
   \<and> retry_num (example_instance example_state_A S_FAILED 0) < retry_count example_state_A
   \<and> fst (retry example_onedocker None
            (example_driver W_FAILED [example_instance example_state_A S_FAILED 0])) = Inr ()
   \<and> status_si (state_instances (owdl_workflow_instance (snd (retry example_onedocker None
            (example_driver W_FAILED [example_instance example_state_A S_FAILED 0])))) ! 0) = S_STARTED"
  unfolding example_retry_failed
  by (simp add: example_driver_def example_instance_def example_state_A_def)

subsection \<open>C2: retry numbers\<close>




subsection \<open>C3: a wrong number of arguments\<close>

text \<open>
  C3, as the source has it. Let \<open>args\<close> be a non-empty list whose length differs from
  the length of the base argument list of the state to be executed. Then \<open>_run_state\<close>
  raises InvalidArguments and leaves the driver unchanged: no backend call and no new
  state instance. So does \<open>next\<close> when its own checks pass, for the state it is about
  to execute. \<open>retry\<close>, when its own checks pass, raises InvalidArguments as well, and
  the driver is then as before the call in everything except, at most, the status of the
  current state instance.
\<close>

theorem args_mismatch_fails_before_backend:
  assumes "args \<noteq> []"
  shows "(length args \<noteq> length (cmd_args_list d)
            \<longrightarrow> run_state onedocker d (Some args) self = (Inl InvalidArguments, self))
    \<and> (status_wi (owdl_workflow_instance self) = W_STARTED
        \<and> state_instances (owdl_workflow_instance self) \<noteq> []
        \<and> status_si (last (state_instances (owdl_workflow_instance self))) = S_COMPLETED
        \<and> \<not> state_end (owdl_state (last (state_instances (owdl_workflow_instance self))))
        \<and> (case state_next (owdl_state (last (state_instances (owdl_workflow_instance self)))) of
              None \<Rightarrow> Some (owdl_state (last (state_instances (owdl_workflow_instance self))))
            | Some n \<Rightarrow> states (owdl_workflow self) n) = Some d
        \<and> length args \<noteq> length (cmd_args_list d)
          \<longrightarrow> next_op onedocker (Some args) self = (Inl InvalidArguments, self))
    \<and> (status_wi (owdl_workflow_instance self) \<notin> set [W_CREATED, W_CANCELLED, W_COMPLETED]
        \<and> state_instances (owdl_workflow_instance self) \<noteq> []
        \<and> status_si (last (state_instances (owdl_workflow_instance self))) \<in> {S_FAILED, S_CANCELLED}
        \<and> retry_num (last (state_instances (owdl_workflow_instance self)))
             < retry_count (owdl_state (last (state_instances (owdl_workflow_instance self))))
        \<and> length args \<noteq>
             length (cmd_args_list (owdl_state (last (state_instances (owdl_workflow_instance self)))))
          \<longrightarrow> fst (retry onedocker (Some args) self) = Inl InvalidArguments
              \<and> (\<exists>st. snd (retry onedocker (Some args) self) = set_current_status st self))"
proof -
  have rs: "run_state onedocker d' (Some args) self' = (Inl InvalidArguments, self')"
    if "length args \<noteq> length (cmd_args_list d')" for d' self'
    using that assms by (simp add: run_state_def)
  have nx: "next_op onedocker (Some args) self = (Inl InvalidArguments, self)"
    if "status_wi (owdl_workflow_instance self) = W_STARTED"
      "state_instances (owdl_workflow_instance self) \<noteq> []"
      "status_si (last (state_instances (owdl_workflow_instance self))) = S_COMPLETED"
      "\<not> state_end (owdl_state (last (state_instances (owdl_workflow_instance self))))"
      "(case state_next (owdl_state (last (state_instances (owdl_workflow_instance self)))) of
              None \<Rightarrow> Some (owdl_state (last (state_instances (owdl_workflow_instance self))))
            | Some n \<Rightarrow> states (owdl_workflow self) n) = Some d"
      "length args \<noteq> length (cmd_args_list d)"
    using that rs [of d self]
    by (auto simp: next_op_def get_current_state_instance_def split: option.splits)
  have rt: "fst (retry onedocker (Some args) self) = Inl InvalidArguments
              \<and> (\<exists>st. snd (retry onedocker (Some args) self) = set_current_status st self)"
    if "status_wi (owdl_workflow_instance self) \<notin> set [W_CREATED, W_CANCELLED, W_COMPLETED]"
      "state_instances (owdl_workflow_instance self) \<noteq> []"
      "status_si (last (state_instances (owdl_workflow_instance self))) \<in> {S_FAILED, S_CANCELLED}"
      "retry_num (last (state_instances (owdl_workflow_instance self)))
             < retry_count (owdl_state (last (state_instances (owdl_workflow_instance self))))"
      "length args \<noteq>
             length (cmd_args_list (owdl_state (last (state_instances (owdl_workflow_instance self)))))"
  proof -
    have "retry onedocker (Some args) self =
            (Inl InvalidArguments, set_current_status S_STARTED self)"
      unfolding retry_unfold [OF that(1-4)] using that(5) by (rule rs)
    then show ?thesis by auto
  qed
  show ?thesis using rs [of d self] nx rt by blast
qed

theorem args_mismatch_fails_before_backend_witness:
  "run_state example_onedocker example_state_C (Some [''a'', ''b''])
       (example_driver W_STARTED [example_instance example_state_C S_COMPLETED 0])
     = (Inl InvalidArguments, example_driver W_STARTED [example_instance example_state_C S_COMPLETED 0])
   \<and> next_op example_onedocker (Some [''a'', ''b''])
       (example_driver W_STARTED [example_instance example_state_C S_COMPLETED 0])
     = (Inl InvalidArguments, example_driver W_STARTED [example_instance example_state_C S_COMPLETED 0])
   \<and> fst (retry example_onedocker (Some [''a'', ''b''])
            (example_driver W_FAILED [example_instance example_state_A S_FAILED 0])) = Inl InvalidArguments
   \<and> (\<exists>st. snd (retry example_onedocker (Some [''a'', ''b''])
            (example_driver W_FAILED [example_instance example_state_A S_FAILED 0]))
          = set_current_status st (example_driver W_FAILED [example_instance example_state_A S_FAILED 0]))"
proof -
  have ne: "[''a'', ''b''] \<noteq> []" by simp
  note c = args_mismatch_fails_before_backend [OF ne, of example_state_C example_onedocker
      "example_driver W_STARTED [example_instance example_state_C S_COMPLETED 0]"]
  note a = args_mismatch_fails_before_backend [OF ne, of example_state_A example_onedocker
      "example_driver W_FAILED [example_instance example_state_A S_FAILED 0]"]
  have 1: "run_state example_onedocker example_state_C (Some [''a'', ''b''])
       (example_driver W_STARTED [example_instance example_state_C S_COMPLETED 0])
     = (Inl InvalidArguments, example_driver W_STARTED [example_instance example_state_C S_COMPLETED 0])"
    using c by (simp add: example_state_C_def)
  have 2: "next_op example_onedocker (Some [''a'', ''b''])
       (example_driver W_STARTED [example_instance example_state_C S_COMPLETED 0])
     = (Inl InvalidArguments, example_driver W_STARTED [example_instance example_state_C S_COMPLETED 0])"
    using c by (simp add: example_state_C_def example_driver_def example_instance_def)
  have 3: "fst (retry example_onedocker (Some [''a'', ''b''])
            (example_driver W_FAILED [example_instance example_state_A S_FAILED 0])) = Inl InvalidArguments
   \<and> (\<exists>st. snd (retry example_onedocker (Some [''a'', ''b''])
            (example_driver W_FAILED [example_instance example_state_A S_FAILED 0]))
          = set_current_status st (example_driver W_FAILED [example_instance example_state_A S_FAILED 0]))"
    using a by (simp add: example_state_A_def example_driver_def example_instance_def)
  show ?thesis using 1 2 3 by blast
qed

text \<open>
  The claim as written fails in two ways. The empty list is a list of the wrong length for
  C, whose base list has one argument, but \<open>if args:\<close> takes it for no list: \<open>next\<close>
  returns and has called the backend. And \<open>retry\<close> with two arguments for A, whose base
  list has one, raises InvalidArguments but does not leave the workflow instance as it was.
\<close>

theorem args_mismatch_counterexample:
  "length ([]::string list) \<noteq> length (cmd_args_list example_state_C)
   \<and> fst (next_op example_onedocker (Some [])
            (example_driver W_STARTED [example_instance example_state_C S_COMPLETED 0])) = Inr ()
   \<and> onedocker_calls (snd (next_op example_onedocker (Some [])
            (example_driver W_STARTED [example_instance example_state_C S_COMPLETED 0])))
       = [StartContainers ''cd'' ''pkg_c'' [''--n''] (Some 60)]
   \<and> length [''a'', ''b''] \<noteq> length (cmd_args_list example_state_A)
   \<and> fst (retry example_onedocker (Some [''a'', ''b''])
            (example_driver W_FAILED [example_instance example_state_A S_FAILED 0])) = Inl InvalidArguments
   \<and> owdl_workflow_instance (snd (retry example_onedocker (Some [''a'', ''b''])
            (example_driver W_FAILED [example_instance example_state_A S_FAILED 0])))
       \<noteq> owdl_workflow_instance (example_driver W_FAILED [example_instance example_state_A S_FAILED 0])"
  unfolding example_retry_mismatch example_next_empty_args
  by (simp add: example_driver_def example_instance_def example_state_A_def example_state_C_def)

subsection \<open>C4 and C10: status aggregation\<close>

text \<open>
  C4. The aggregate of a list of containers is FAILED when some container is FAILED; else
  STARTED when some container is STARTED or UNKNOWN; else COMPLETED. Hence two lists that
  are permutations of each other have the same aggregate, and a list with a FAILED
  container is FAILED whatever else it holds.
\<close>

theorem get_state_status_aggregate:
  "get_state_status cs =
     (if \<exists>c \<in> set cs. status_ci c = C_FAILED then S_FAILED
      else if \<exists>c \<in> set cs. status_ci c = C_STARTED \<or> status_ci c = C_UNKNOWN then S_STARTED
      else S_COMPLETED)
   \<and> (\<forall>cs'. mset cs' = mset cs \<longrightarrow> get_state_status cs' = get_state_status cs)
   \<and> (\<forall>c \<in> set cs. status_ci c = C_FAILED \<longrightarrow> get_state_status cs = S_FAILED)"
proof -
  have char: "\<And>xs. get_state_status xs =
     (if \<exists>c \<in> set xs. status_ci c = C_FAILED then S_FAILED
      else if \<exists>c \<in> set xs. status_ci c = C_STARTED \<or> status_ci c = C_UNKNOWN then S_STARTED
      else S_COMPLETED)"
    by (simp add: get_state_status_def get_state_status_loop_char)
  have perm: "get_state_status cs' = get_state_status cs" if "mset cs' = mset cs" for cs'
  proof -
    from that have "set cs' = set cs" by (rule mset_eq_setD)
    then show ?thesis by (simp only: char)
  qed
  have failed: "get_state_status cs = S_FAILED" if "c \<in> set cs" "status_ci c = C_FAILED" for c
    using that by (auto simp: char)
  show ?thesis using char [of cs] perm failed by blast
qed

theorem get_state_status_aggregate_witness:
  "get_state_status
     [\<lparr>instance_id = ''a'', status_ci = C_COMPLETED\<rparr>,
      \<lparr>instance_id = ''b'', status_ci = C_FAILED\<rparr>,
      \<lparr>instance_id = ''c'', status_ci = C_UNKNOWN\<rparr>] = S_FAILED
   \<and> get_state_status
     [\<lparr>instance_id = ''c'', status_ci = C_UNKNOWN\<rparr>,
      \<lparr>instance_id = ''b'', status_ci = C_FAILED\<rparr>,
      \<lparr>instance_id = ''a'', status_ci = C_COMPLETED\<rparr>] = S_FAILED"
proof -
  let ?a = "\<lparr>instance_id = ''a'', status_ci = C_COMPLETED\<rparr>"
  let ?b = "\<lparr>instance_id = ''b'', status_ci = C_FAILED\<rparr>"
  let ?c = "\<lparr>instance_id = ''c'', status_ci = C_UNKNOWN\<rparr>"
  have m: "mset [?c, ?b, ?a] = mset [?a, ?b, ?c]" by (simp add: add_mset_commute)
  have b: "?b \<in> set [?a, ?b, ?c]" by simp
  from get_state_status_aggregate [of "[?a, ?b, ?c]"]
  have f: "get_state_status [?a, ?b, ?c] = S_FAILED"
    and p: "get_state_status [?c, ?b, ?a] = get_state_status [?a, ?b, ?c]"
    using m b by auto
  show ?thesis using f p by simp
qed

text \<open>
  C10. On the empty container list the loop body never runs, \<open>has_started\<close> stays
  False, and the aggregate is COMPLETED.
\<close>

theorem get_state_status_empty: "get_state_status [] = S_COMPLETED"
  by (simp add: get_state_status_def)

subsection \<open>C5: the retry limit\<close>

text \<open>
  C5. When the workflow status is none of CREATED, CANCELLED and COMPLETED and the retry
  number of the current state instance has reached the retry limit of its state,
  \<open>retry\<close> raises RetryLimitExceeded and leaves the driver unchanged. As to the number of
  state instances of a state \<open>d\<close>: in every run of a new driver, a call of \<open>retry\<close>
  never raises that number above \<open>retry_count d + 1\<close> (it stays at most the larger of that
  bound and what it was before the call); and in a run that never calls \<open>next\<close>, for a
  state whose retry limit is not negative, the number is at most \<open>retry_count d + 1\<close>.
\<close>

theorem retry_limit:
  "(status_wi (owdl_workflow_instance self) \<notin> set [W_CREATED, W_CANCELLED, W_COMPLETED]
      \<and> state_instances (owdl_workflow_instance self) \<noteq> []
      \<and> retry_num (last (state_instances (owdl_workflow_instance self)))
           \<ge> retry_count (owdl_state (last (state_instances (owdl_workflow_instance self))))
     \<longrightarrow> retry onedocker args self = (Inl RetryLimitExceeded, self))
   \<and> (self = run_ops onedocker ops (new_driver iid workflow)
     \<longrightarrow> int (attempts_of d (state_instances (owdl_workflow_instance (snd (retry onedocker args self)))))
           \<le> max (int (attempts_of d (state_instances (owdl_workflow_instance self))))
                 (retry_count d + 1))
   \<and> (self = run_ops onedocker ops (new_driver iid workflow)
       \<and> list_all (\<lambda>operation. \<not> is_next operation) ops \<and> 0 \<le> retry_count d
     \<longrightarrow> int (attempts_of d (state_instances (owdl_workflow_instance self))) \<le> retry_count d + 1)"
proof -
  have g: "retry onedocker args self = (Inl RetryLimitExceeded, self)"
    if "status_wi (owdl_workflow_instance self) \<notin> set [W_CREATED, W_CANCELLED, W_COMPLETED]"
       "state_instances (owdl_workflow_instance self) \<noteq> []"
       "retry_num (last (state_instances (owdl_workflow_instance self)))
           \<ge> retry_count (owdl_state (last (state_instances (owdl_workflow_instance self))))"
    using that by (simp add: retry_def get_current_state_instance_def)
  have s: "int (attempts_of d (state_instances (owdl_workflow_instance (snd (retry onedocker args self)))))
           \<le> max (int (attempts_of d (state_instances (owdl_workflow_instance self))))
                 (retry_count d + 1)"
    if "self = run_ops onedocker ops (new_driver iid workflow)"
    using that retry_bound_step [OF run_ops_new_driver_ok] by simp
  have r: "int (attempts_of d (state_instances (owdl_workflow_instance self))) \<le> retry_count d + 1"
    if "self = run_ops onedocker ops (new_driver iid workflow)"
       "list_all (\<lambda>operation. \<not> is_next operation) ops" "0 \<le> retry_count d"
  proof -
    have "retry_only_inv d (new_driver iid workflow)"
      using that(3) by (simp add: retry_only_inv_def created_empty_def attempt_log_def new_driver_def)
    from retry_only_inv_run [OF that(2,3) this, of onedocker] that(1) show ?thesis
      by (simp add: retry_only_inv_def attempts_of_log)
  qed
  show ?thesis using g s r by blast
qed

theorem retry_limit_witness:
  "retry example_onedocker None (example_driver W_FAILED [example_instance example_state_A S_FAILED 1])
     = (Inl RetryLimitExceeded, example_driver W_FAILED [example_instance example_state_A S_FAILED 1])
   \<and> int (attempts_of example_state_A (state_instances (owdl_workflow_instance
          (snd (retry example_onedocker None
             (run_ops example_onedocker [Start, GetStatus] (new_driver ''run'' example_workflow)))))))
       \<le> max (int (attempts_of example_state_A (state_instances (owdl_workflow_instance
             (run_ops example_onedocker [Start, GetStatus] (new_driver ''run'' example_workflow))))))
             (retry_count example_state_A + 1)
   \<and> int (attempts_of example_state_A (state_instances (owdl_workflow_instance
          (run_ops example_onedocker [Start, GetStatus, Retry None] (new_driver ''run'' example_workflow)))))
       \<le> retry_count example_state_A + 1"
proof -
  let ?self = "example_driver W_FAILED [example_instance example_state_A S_FAILED 1]"
  have g: "status_wi (owdl_workflow_instance ?self) \<notin> set [W_CREATED, W_CANCELLED, W_COMPLETED]
      \<and> state_instances (owdl_workflow_instance ?self) \<noteq> []
      \<and> retry_num (last (state_instances (owdl_workflow_instance ?self)))
           \<ge> retry_count (owdl_state (last (state_instances (owdl_workflow_instance ?self))))"
    by (simp add: example_driver_def example_instance_def example_state_A_def)
  have 1: "retry example_onedocker None ?self = (Inl RetryLimitExceeded, ?self)"
    using retry_limit [of ?self example_onedocker None] g by blast
  have 2: "int (attempts_of example_state_A (state_instances (owdl_workflow_instance
          (snd (retry example_onedocker None
             (run_ops example_onedocker [Start, GetStatus] (new_driver ''run'' example_workflow)))))))
       \<le> max (int (attempts_of example_state_A (state_instances (owdl_workflow_instance
             (run_ops example_onedocker [Start, GetStatus] (new_driver ''run'' example_workflow))))))
             (retry_count example_state_A + 1)"
    using retry_limit [of "run_ops example_onedocker [Start, GetStatus] (new_driver ''run'' example_workflow)"
        example_onedocker None "[Start, GetStatus]" "''run''" example_workflow example_state_A]
    by blast
  have nf: "list_all (\<lambda>operation. \<not> is_next operation) [Start, GetStatus, Retry None]" by simp
  have rc: "0 \<le> retry_count example_state_A" by (simp add: example_state_A_def)
  have 3: "int (attempts_of example_state_A (state_instances (owdl_workflow_instance
          (run_ops example_onedocker [Start, GetStatus, Retry None] (new_driver ''run'' example_workflow)))))
       \<le> retry_count example_state_A + 1"
    using retry_limit [of "run_ops example_onedocker [Start, GetStatus, Retry None] (new_driver ''run'' example_workflow)"
        example_onedocker None "[Start, GetStatus, Retry None]" "''run''" example_workflow example_state_A]
      nf rc by blast
  show ?thesis using 1 2 3 by blast
qed

subsection \<open>C6: next refused\<close>

text \<open>
  C6, as the source has it. \<open>next\<close> asks for the current state instance before it
  checks any status. With at least one state instance, a workflow status other than
  STARTED or a current state instance other than COMPLETED makes \<open>next\<close> raise
  InvalidTransition; with no state instance at all it raises NoStateStarted. In both cases
  the driver is left unchanged.
\<close>

theorem next_op_guard:
  "(state_instances (owdl_workflow_instance self) \<noteq> [] \<and>
      (status_wi (owdl_workflow_instance self) \<noteq> W_STARTED
       \<or> status_si (last (state_instances (owdl_workflow_instance self))) \<noteq> S_COMPLETED)
     \<longrightarrow> next_op onedocker args self = (Inl InvalidTransition_next, self))
   \<and> (state_instances (owdl_workflow_instance self) = []
     \<longrightarrow> next_op onedocker args self = (Inl NoStateStarted, self))"
  by (auto simp: next_op_def get_current_state_instance_def)

theorem next_op_guard_witness:
  "next_op example_onedocker None (example_driver W_FAILED [example_instance example_state_A S_FAILED 0])
     = (Inl InvalidTransition_next, example_driver W_FAILED [example_instance example_state_A S_FAILED 0])
   \<and> next_op example_onedocker None (new_driver ''run'' example_workflow)
     = (Inl NoStateStarted, new_driver ''run'' example_workflow)"
proof -
  have 1: "next_op example_onedocker None (example_driver W_FAILED [example_instance example_state_A S_FAILED 0])
     = (Inl InvalidTransition_next, example_driver W_FAILED [example_instance example_state_A S_FAILED 0])"
    using next_op_guard [of "example_driver W_FAILED [example_instance example_state_A S_FAILED 0]"
        example_onedocker None]
    by (simp add: example_driver_def)
  have 2: "next_op example_onedocker None (new_driver ''run'' example_workflow)
     = (Inl NoStateStarted, new_driver ''run'' example_workflow)"
    using next_op_guard [of "new_driver ''run'' example_workflow" example_onedocker None]
    by (simp add: new_driver_def)
  show ?thesis using 1 2 by blast
qed

text \<open>
  The claim as written promises InvalidTransition whenever the workflow status is not
  STARTED. A new driver is CREATED and has no state instance: \<open>next\<close> raises
  NoStateStarted, which is another error.
\<close>

theorem next_op_guard_counterexample:
  "status_wi (owdl_workflow_instance (new_driver ''run'' example_workflow)) \<noteq> W_STARTED
   \<and> fst (next_op example_onedocker None (new_driver ''run'' example_workflow)) = Inl NoStateStarted
   \<and> NoStateStarted \<noteq> InvalidTransition_next"
  by (simp add: next_op_def get_current_state_instance_def new_driver_def NoStateStarted_def
        InvalidTransition_next_def)

subsection \<open>C7: next on a terminal state\<close>

text \<open>
  C7. When the workflow is STARTED, the current state instance is COMPLETED and its state
  is flagged as the end, \<open>next\<close> returns, the workflow status is COMPLETED, the list of
  state instances is the same and no backend call has been made.
\<close>

theorem next_op_terminal:
  assumes "status_wi (owdl_workflow_instance self) = W_STARTED"
    and "state_instances (owdl_workflow_instance self) \<noteq> []"
    and "status_si (last (state_instances (owdl_workflow_instance self))) = S_COMPLETED"
    and "state_end (owdl_state (last (state_instances (owdl_workflow_instance self))))"
  shows "fst (next_op onedocker args self) = Inr ()
    \<and> status_wi (owdl_workflow_instance (snd (next_op onedocker args self))) = W_COMPLETED
    \<and> state_instances (owdl_workflow_instance (snd (next_op onedocker args self)))
        = state_instances (owdl_workflow_instance self)
    \<and> onedocker_calls (snd (next_op onedocker args self)) = onedocker_calls self"
  using assms by (simp add: next_op_def get_current_state_instance_def set_workflow_status_def)

theorem next_op_terminal_witness:
  "fst (next_op example_onedocker None
          (example_driver W_STARTED [example_instance example_state_B S_COMPLETED 0])) = Inr ()
   \<and> status_wi (owdl_workflow_instance (snd (next_op example_onedocker None
          (example_driver W_STARTED [example_instance example_state_B S_COMPLETED 0])))) = W_COMPLETED
   \<and> state_instances (owdl_workflow_instance (snd (next_op example_onedocker None
          (example_driver W_STARTED [example_instance example_state_B S_COMPLETED 0]))))
        = [example_instance example_state_B S_COMPLETED 0]
   \<and> onedocker_calls (snd (next_op example_onedocker None
          (example_driver W_STARTED [example_instance example_state_B S_COMPLETED 0]))) = []"
  using next_op_terminal [of "example_driver W_STARTED [example_instance example_state_B S_COMPLETED 0]"
      example_onedocker None]
  by (simp add: example_driver_def example_instance_def example_state_B_def)

subsection \<open>C8: cancelling the workflow\<close>

text \<open>
  C8. \<open>cancel_workflow\<close> returns or raises as its call of \<open>cancel_state\<close> does, and
  the workflow status after it is CANCELLED when \<open>cancel_state\<close> returned and what it
  was before otherwise. \<open>cancel_state\<close> returns when the workflow is STARTED, the
  current state instance is STARTED and the backend stops the containers. When the
  workflow is not STARTED, or there is no current state instance, or it is not STARTED,
  \<open>cancel_workflow\<close> raises and leaves the driver unchanged.
\<close>

theorem cancel_workflow_follows_cancel_state:
  "fst (cancel_workflow onedocker self) = fst (cancel_state onedocker self)
   \<and> status_wi (owdl_workflow_instance (snd (cancel_workflow onedocker self))) =
       (if fst (cancel_state onedocker self) = Inr () then W_CANCELLED
        else status_wi (owdl_workflow_instance self))
   \<and> (status_wi (owdl_workflow_instance self) = W_STARTED
       \<and> state_instances (owdl_workflow_instance self) \<noteq> []
       \<and> status_si (last (state_instances (owdl_workflow_instance self))) = S_STARTED
       \<and> stop_containers onedocker (onedocker_calls self)
            (map instance_id (containers (last (state_instances (owdl_workflow_instance self))))) = Inr ()
      \<longrightarrow> fst (cancel_state onedocker self) = Inr ())
   \<and> (\<not> (status_wi (owdl_workflow_instance self) = W_STARTED
          \<and> state_instances (owdl_workflow_instance self) \<noteq> []
          \<and> status_si (last (state_instances (owdl_workflow_instance self))) = S_STARTED)
      \<longrightarrow> (\<exists>e. cancel_workflow onedocker self = (Inl e, self)))"
  by (auto simp: cancel_workflow_def cancel_state_cases set_workflow_status_def set_current_status_def split: sum.splits)

theorem cancel_workflow_follows_cancel_state_witness:
  "fst (cancel_workflow example_onedocker
          (example_driver W_STARTED [example_instance example_state_A S_STARTED 0])) = Inr ()
   \<and> status_wi (owdl_workflow_instance (snd (cancel_workflow example_onedocker
          (example_driver W_STARTED [example_instance example_state_A S_STARTED 0])))) = W_CANCELLED
   \<and> (\<exists>e. cancel_workflow example_onedocker
          (example_driver W_STARTED [example_instance example_state_A S_FAILED 0])
        = (Inl e, example_driver W_STARTED [example_instance example_state_A S_FAILED 0]))"
proof -
  let ?ok = "example_driver W_STARTED [example_instance example_state_A S_STARTED 0]"
  let ?bad = "example_driver W_STARTED [example_instance example_state_A S_FAILED 0]"
  have s: "fst (cancel_state example_onedocker ?ok) = Inr ()"
    using cancel_workflow_follows_cancel_state [of example_onedocker ?ok]
    by (simp add: example_driver_def example_instance_def example_onedocker_def)
  have 1: "fst (cancel_workflow example_onedocker ?ok) = Inr ()
     \<and> status_wi (owdl_workflow_instance (snd (cancel_workflow example_onedocker ?ok))) = W_CANCELLED"
    using cancel_workflow_follows_cancel_state [of example_onedocker ?ok] s by simp
  have 2: "\<exists>e. cancel_workflow example_onedocker ?bad = (Inl e, ?bad)"
    using cancel_workflow_follows_cancel_state [of example_onedocker ?bad]
    by (simp add: example_driver_def example_instance_def)
  show ?thesis using 1 2 by blast
qed

subsection \<open>C9: next without a next state\<close>

text \<open>
  C9. When the workflow is STARTED, the current state instance is COMPLETED, and its state
  is not flagged as the end and names no next state, \<open>next\<close> executes the same state
  again: given arguments that \<open>_run_state\<close> accepts and a backend that starts the
  containers, it returns and has appended a STARTED state instance for that state.
\<close>

theorem next_op_reexecutes:
  assumes "status_wi (owdl_workflow_instance self) = W_STARTED"
    and "state_instances (owdl_workflow_instance self) \<noteq> []"
    and "status_si (last (state_instances (owdl_workflow_instance self))) = S_COMPLETED"
    and "\<not> state_end (owdl_state (last (state_instances (owdl_workflow_instance self))))"
    and "state_next (owdl_state (last (state_instances (owdl_workflow_instance self)))) = None"
    and "curr_state = owdl_state (last (state_instances (owdl_workflow_instance self)))"
    and "merge_args (cmd_args_list curr_state) args = Inr cmd"
    and "start_containers onedocker (onedocker_calls self) (container_definition curr_state)
           (package_name curr_state) cmd (timeout curr_state) = Inr container_list"
  shows "fst (next_op onedocker args self) = Inr ()
    \<and> state_instances (owdl_workflow_instance (snd (next_op onedocker args self))) =
        state_instances (owdl_workflow_instance self) @
          [\<lparr>owdl_state = curr_state, containers = container_list, status_si = S_STARTED,
            retry_num = int (length (filter (\<lambda>si. owdl_state si = curr_state)
                                (state_instances (owdl_workflow_instance self))))\<rparr>]
    \<and> status_wi (owdl_workflow_instance (snd (next_op onedocker args self))) = W_STARTED"
proof -
  have "next_op onedocker args self = run_state onedocker curr_state args self"
    using assms(1-6) by (simp add: next_op_def get_current_state_instance_def)
  then show ?thesis
    using run_state_ok [OF assms(7,8)] assms(1) by (simp add: get_retry_num_count)
qed

theorem next_op_reexecutes_witness:
  "fst (next_op example_onedocker None
          (example_driver W_STARTED [example_instance example_state_C S_COMPLETED 0])) = Inr ()
   \<and> state_instances (owdl_workflow_instance (snd (next_op example_onedocker None
          (example_driver W_STARTED [example_instance example_state_C S_COMPLETED 0])))) =
       [example_instance example_state_C S_COMPLETED 0,
        \<lparr>owdl_state = example_state_C,
         containers = [\<lparr>instance_id = ''pkg_c'', status_ci = C_STARTED\<rparr>],
         status_si = S_STARTED, retry_num = 1\<rparr>]"
proof -
  let ?self = "example_driver W_STARTED [example_instance example_state_C S_COMPLETED 0]"
  have h1: "status_wi (owdl_workflow_instance ?self) = W_STARTED"
    and h2: "state_instances (owdl_workflow_instance ?self) \<noteq> []"
    and h3: "status_si (last (state_instances (owdl_workflow_instance ?self))) = S_COMPLETED"
    and h4: "\<not> state_end (owdl_state (last (state_instances (owdl_workflow_instance ?self))))"
    and h5: "state_next (owdl_state (last (state_instances (owdl_workflow_instance ?self)))) = None"
    and h6: "example_state_C = owdl_state (last (state_instances (owdl_workflow_instance ?self)))"
    by (simp_all add: example_driver_def example_instance_def example_state_C_def)
  have h7: "merge_args (cmd_args_list example_state_C) None = Inr [''--n'']"
    by (simp add: example_state_C_def)
  have h8: "start_containers example_onedocker (onedocker_calls ?self)
              (container_definition example_state_C) (package_name example_state_C) [''--n'']
              (timeout example_state_C) = Inr [\<lparr>instance_id = ''pkg_c'', status_ci = C_STARTED\<rparr>]"
    by (simp add: example_onedocker_def example_state_C_def)
  from next_op_reexecutes [OF h1 h2 h3 h4 h5 h6 h7 h8] show ?thesis
    by (simp add: example_driver_def example_instance_def)
qed

end
